theory Spec2Isabelle
  imports Main
begin

section \<open>JavaScript values, promises and jest mocks\<close>

text \<open>
  The session code of \<^verbatim>\<open>tests/unit/connect.test.ts\<close> is a pair of async functions,
  \<^verbatim>\<open>connect\<close> and \<^verbatim>\<open>isConnected\<close>, closed over one module variable
  \<^verbatim>\<open>_client\<close> and over jest mock functions for every collaborator.  An async call
  either resolves with a value or rejects with an error; a synchronous call that throws
  is the same \<open>Rejected\<close> branch.
\<close>

datatype js_error = Error string | TypeError string

datatype 'a outcome = Resolved 'a | Rejected js_error

text \<open>
  A \<^verbatim>\<open>jest.fn()\<close>: the queue filled by \<^verbatim>\<open>mockResolvedValueOnce\<close> and
  \<^verbatim>\<open>mockRejectedValueOnce\<close>, consumed first in, first out, and the default set by
  \<^verbatim>\<open>mockResolvedValue\<close> or \<^verbatim>\<open>mockImplementation\<close>, used once the queue is empty.
\<close>

record 'a mock =
  once :: "'a outcome list"
  dflt :: "'a outcome"

definition next_outcome :: "'a mock \<Rightarrow> 'a outcome" where
  "next_outcome m = (case once m of [] \<Rightarrow> dflt m | x # _ \<Rightarrow> x)"

definition consume :: "'a mock \<Rightarrow> 'a mock" where
  "consume m = m\<lparr>once := tl (once m)\<rparr>"

text \<open>
  The value \<^verbatim>\<open>_client.state()\<close> resolves with, as far as the code reads it:
  \<^verbatim>\<open>state?.controller?.state?.i\<close>.  Every link of the chain may be missing.
\<close>

record key_state =
  ks_i :: "string option"

record controller =
  ctrl_state :: "key_state option"

record agent_state =
  st_controller :: "controller option"

definition controller_i :: "agent_state option \<Rightarrow> string option" where
  "controller_i st =
     Option.bind (Option.bind (Option.bind st st_controller) ctrl_state) ks_i"

text \<open>JavaScript truthiness of a value that is a string, \<^verbatim>\<open>null\<close> or \<^verbatim>\<open>undefined\<close>.\<close>

definition truthy :: "string option \<Rightarrow> bool" where
  "truthy v = (case v of None \<Rightarrow> False | Some s \<Rightarrow> s \<noteq> [])"

section \<open>The world of the session code\<close>

text \<open>
  The constructor mock returns the one \<^verbatim>\<open>mockClient\<close> object whatever its arguments,
  so a handle carries no data of its own.
\<close>

datatype client = MockClient

text \<open>The calls made on the collaborators, in the order they are made.\<close>

datatype event =
    CallReady
  | CallSignifyClient string string
  | CallClientConnect
  | CallClientState "agent_state option outcome"
  | CallSetControllerId "string option"
  | CallGetPasscode
  | CallGetAgentUrl
  | CallAlarmsCreate string nat
  | CallAlarmsClear string
  | ConsoleError js_error

text \<open>
  Modelled from the spec: \<open>stored_controllerId\<close> is the controller identifier the
  Controller Identity Store holds.  The store is not in the sources (\<^verbatim>\<open>setControllerId\<close>
  is a mock): a write that resolves stores its argument, a write that rejects stores
  nothing.

  The other fields are the source's: \<open>client\<close> is the module variable \<^verbatim>\<open>_client\<close>, the
  \<open>m_\<close> fields are the mocks, \<open>calls\<close> is what the mocks record.
\<close>

record world =
  client :: "client option"
  stored_controllerId :: "string option"
  m_ready :: "unit mock"
  m_SignifyClient :: "client mock"
  m_client_connect :: "bool mock"
  m_client_state :: "agent_state option mock"
  m_setControllerId :: "unit mock"
  m_getPasscode :: "string option mock"
  m_getAgentUrl :: "string option mock"
  m_alarms_create :: "unit mock"
  m_alarms_clear :: "bool mock"
  calls :: "event list"

type_synonym 'a js = "world \<Rightarrow> 'a outcome \<times> world"

text \<open>Sequencing (\<^verbatim>\<open>await\<close> and then go on), \<^verbatim>\<open>return\<close> and \<^verbatim>\<open>try/catch\<close>.\<close>

definition return_js :: "'a \<Rightarrow> 'a js" where
  "return_js x = (\<lambda>w. (Resolved x, w))"

definition bind_js :: "'a js \<Rightarrow> ('a \<Rightarrow> 'b js) \<Rightarrow> 'b js" where
  "bind_js m f =
     (\<lambda>w. case m w of
            (Resolved x, w') \<Rightarrow> f x w'
          | (Rejected e, w') \<Rightarrow> (Rejected e, w'))"

definition try_catch :: "'a js \<Rightarrow> (js_error \<Rightarrow> 'a js) \<Rightarrow> 'a js" where
  "try_catch m h =
     (\<lambda>w. case m w of
            (Resolved x, w') \<Rightarrow> (Resolved x, w')
          | (Rejected e, w') \<Rightarrow> h e w')"

subsection \<open>The collaborators\<close>

definition call_ready :: "unit js" where
  "call_ready w =
     (next_outcome (m_ready w),
      w\<lparr>m_ready := consume (m_ready w), calls := calls w @ [CallReady]\<rparr>)"

definition new_SignifyClient :: "string \<Rightarrow> string \<Rightarrow> client js" where
  "new_SignifyClient agentUrl passcode w =
     (next_outcome (m_SignifyClient w),
      w\<lparr>m_SignifyClient := consume (m_SignifyClient w),
        calls := calls w @ [CallSignifyClient agentUrl passcode]\<rparr>)"

definition call_client_connect :: "bool js" where
  "call_client_connect w =
     (next_outcome (m_client_connect w),
      w\<lparr>m_client_connect := consume (m_client_connect w),
        calls := calls w @ [CallClientConnect]\<rparr>)"

definition call_client_state :: "agent_state option js" where
  "call_client_state w =
     (next_outcome (m_client_state w),
      w\<lparr>m_client_state := consume (m_client_state w),
        calls := calls w @ [CallClientState (next_outcome (m_client_state w))]\<rparr>)"

definition call_setControllerId :: "string option \<Rightarrow> unit js" where
  "call_setControllerId v w =
     (next_outcome (m_setControllerId w),
      w\<lparr>m_setControllerId := consume (m_setControllerId w),
        calls := calls w @ [CallSetControllerId v],
        stored_controllerId :=
          (case next_outcome (m_setControllerId w) of
             Resolved _ \<Rightarrow> v
           | Rejected _ \<Rightarrow> stored_controllerId w)\<rparr>)"

definition call_getPasscode :: "string option js" where
  "call_getPasscode w =
     (next_outcome (m_getPasscode w),
      w\<lparr>m_getPasscode := consume (m_getPasscode w),
        calls := calls w @ [CallGetPasscode]\<rparr>)"

definition call_getAgentUrl :: "string option js" where
  "call_getAgentUrl w =
     (next_outcome (m_getAgentUrl w),
      w\<lparr>m_getAgentUrl := consume (m_getAgentUrl w),
        calls := calls w @ [CallGetAgentUrl]\<rparr>)"

definition call_alarms_create :: "string \<Rightarrow> nat \<Rightarrow> unit js" where
  "call_alarms_create name delayInMinutes w =
     (next_outcome (m_alarms_create w),
      w\<lparr>m_alarms_create := consume (m_alarms_create w),
        calls := calls w @ [CallAlarmsCreate name delayInMinutes]\<rparr>)"

definition call_alarms_clear :: "string \<Rightarrow> bool js" where
  "call_alarms_clear name w =
     (next_outcome (m_alarms_clear w),
      w\<lparr>m_alarms_clear := consume (m_alarms_clear w),
        calls := calls w @ [CallAlarmsClear name]\<rparr>)"

definition console_error :: "js_error \<Rightarrow> unit js" where
  "console_error e w = (Resolved (), w\<lparr>calls := calls w @ [ConsoleError e]\<rparr>)"

text \<open>Assignment to \<^verbatim>\<open>_client\<close>.\<close>

definition assign_client :: "client option \<Rightarrow> unit js" where
  "assign_client c w = (Resolved (), w\<lparr>client := c\<rparr>)"

text \<open>
  \<^verbatim>\<open>_client.connect()\<close> and \<^verbatim>\<open>_client.state()\<close>: a method call through the variable,
  a \<^verbatim>\<open>TypeError\<close> when the variable holds \<^verbatim>\<open>null\<close>.
\<close>

definition deref_client_connect :: "bool js" where
  "deref_client_connect w =
     (case client w of
        None \<Rightarrow> (Rejected (TypeError ''Cannot read properties of null (reading 'connect')''), w)
      | Some _ \<Rightarrow> call_client_connect w)"

definition deref_client_state :: "agent_state option js" where
  "deref_client_state w =
     (case client w of
        None \<Rightarrow> (Rejected (TypeError ''Cannot read properties of null (reading 'state')''), w)
      | Some _ \<Rightarrow> call_client_state w)"

text \<open>\<^verbatim>\<open>_client?.state()\<close>: \<^verbatim>\<open>undefined\<close>, and no call, when the variable holds \<^verbatim>\<open>null\<close>.\<close>

definition optional_client_state :: "agent_state option js" where
  "optional_client_state w =
     (case client w of
        None \<Rightarrow> (Resolved None, w)
      | Some _ \<Rightarrow> call_client_state w)"

section \<open>connect and isConnected\<close>

text \<open>What \<^verbatim>\<open>connect\<close> resolves with: \<^verbatim>\<open>undefined\<close>, or the object \<^verbatim>\<open>{ error }\<close>.\<close>

datatype connect_result = Undefined | ErrorObject js_error

text \<open>The \<^verbatim>\<open>catch\<close> block of \<^verbatim>\<open>connect\<close>.\<close>

definition connect_catch :: "js_error \<Rightarrow> connect_result js" where
  "connect_catch error =
     bind_js (console_error error) (\<lambda>_.
     bind_js (assign_client None) (\<lambda>_.
     return_js (ErrorObject error)))"

definition connect :: "string \<Rightarrow> string \<Rightarrow> connect_result js" where
  "connect agentUrl passcode =
     try_catch
       (bind_js call_ready (\<lambda>_.
        bind_js (new_SignifyClient agentUrl passcode) (\<lambda>c.
        bind_js (assign_client (Some c)) (\<lambda>_.
        bind_js deref_client_connect (\<lambda>_.
        bind_js deref_client_state (\<lambda>state.
        bind_js (call_setControllerId (controller_i state)) (\<lambda>_.
        bind_js (call_alarms_create ''passcode-timeout'' 5) (\<lambda>_.
        return_js Undefined))))))))
       connect_catch"

text \<open>
  The lazy reconnect of \<^verbatim>\<open>isConnected\<close>: the body of its \<^verbatim>\<open>if\<close>.  The value of
  \<^verbatim>\<open>connect\<close> is dropped, and the alarm calls stand outside every \<^verbatim>\<open>try\<close>.
  \<^verbatim>\<open>alarms.clear\<close> is awaited; \<^verbatim>\<open>alarms.create\<close> is not, here as in \<^verbatim>\<open>connect\<close>, so
  its \<open>Rejected\<close> outcome is a synchronous throw (a rejected promise it returned would
  go unobserved, as a return does).
\<close>

definition reconnect :: "string \<Rightarrow> string \<Rightarrow> unit js" where
  "reconnect url passcode =
     bind_js (connect url passcode) (\<lambda>_.
     bind_js (call_alarms_clear ''passcode-timeout'') (\<lambda>_.
     call_alarms_create ''passcode-timeout'' 5))"

definition isConnected :: "bool js" where
  "isConnected =
     bind_js call_getPasscode (\<lambda>passcode.
     bind_js call_getAgentUrl (\<lambda>url.
     bind_js (\<lambda>w. case (url, passcode) of
                    (Some u, Some p) \<Rightarrow>
                      if u \<noteq> [] \<and> p \<noteq> [] \<and> client w = None
                      then reconnect u p w else return_js () w
                  | _ \<Rightarrow> return_js () w) (\<lambda>_.
     try_catch
       (bind_js optional_client_state (\<lambda>state.
        (\<lambda>w. return_js (client w \<noteq> None \<and> truthy (controller_i state)) w)))
       (\<lambda>error. return_js False))))"

subsection \<open>The worlds of the test file\<close>

text \<open>\<^verbatim>\<open>jest.fn().mockResolvedValue(x)\<close>, and the same with one queued outcome.\<close>

definition always :: "'a \<Rightarrow> 'a mock" where
  "always x = \<lparr>once = [], dflt = Resolved x\<rparr>"

definition once_then :: "'a outcome \<Rightarrow> 'a \<Rightarrow> 'a mock" where
  "once_then r x = \<lparr>once = [r], dflt = Resolved x\<rparr>"

definition test_state :: agent_state where
  "test_state =
     \<lparr>st_controller = Some \<lparr>ctrl_state = Some \<lparr>ks_i = Some ''test-controller-id''\<rparr>\<rparr>\<rparr>"

text \<open>The mocks as the file declares them, \<^verbatim>\<open>_client = null\<close>.\<close>

definition test_world :: world where
  "test_world =
     \<lparr>client = None,
      stored_controllerId = None,
      m_ready = always (),
      m_SignifyClient = always MockClient,
      m_client_connect = always True,
      m_client_state = always (Some test_state),
      m_setControllerId = always (),
      m_getPasscode = always None,
      m_getAgentUrl = always None,
      m_alarms_create = always (),
      m_alarms_clear = always True,
      calls = []\<rparr>"

text \<open>\<^verbatim>\<open>_client = mockClient\<close>: the arrangement of "returns true when client is connected".\<close>

definition connected_world :: world where
  "connected_world = test_world\<lparr>client := Some MockClient\<rparr>"

text \<open>The arrangement of "attempts to connect if client is not connected but credentials exist".\<close>

definition stored_credentials_world :: world where
  "stored_credentials_world =
     test_world\<lparr>m_getPasscode := once_then (Resolved (Some ''stored-passcode'')) None,
                m_getAgentUrl := once_then (Resolved (Some ''http://stored-url.com'')) None\<rparr>"

text \<open>The arrangement of "returns false when connect attempt fails".\<close>

definition failing_reconnect_world :: world where
  "failing_reconnect_world =
     stored_credentials_world\<lparr>m_client_connect := once_then (Rejected (Error ''Connect error'')) True\<rparr>"

text \<open>The arrangement of "handles errors during connection".\<close>

definition failing_handshake_world :: world where
  "failing_handshake_world =
     test_world\<lparr>m_client_connect := once_then (Rejected (Error ''Connect error'')) True\<rparr>"

text \<open>The arrangement of "returns false when client exists but state is invalid".\<close>

definition failing_state_world :: world where
  "failing_state_world =
     connected_world\<lparr>m_client_state := once_then (Rejected (Error ''State error'')) (Some test_state)\<rparr>"

text \<open>Stored credentials, no handle, and an alarm service whose \<^verbatim>\<open>clear\<close> rejects once.\<close>

definition failing_alarm_world :: world where
  "failing_alarm_world =
     stored_credentials_world\<lparr>m_alarms_clear := once_then (Rejected (Error ''Alarm error'')) True\<rparr>"

text \<open>No handle, and a passcode read that rejects.\<close>

definition failing_read_world :: world where
  "failing_read_world =
     test_world\<lparr>m_getPasscode := once_then (Rejected (Error ''Storage error'')) None\<rparr>"

text \<open>No handle, a passcode stored, and an agent URL read that rejects.\<close>

definition failing_url_world :: world where
  "failing_url_world =
     test_world\<lparr>m_getPasscode := once_then (Resolved (Some ''stored-passcode'')) None,
                m_getAgentUrl := once_then (Rejected (Error ''Config error'')) None\<rparr>"

text \<open>Stored credentials, no handle, and an alarm service whose second \<^verbatim>\<open>create\<close>
  throws: the one of \<^verbatim>\<open>connect\<close> returns, the one of \<^verbatim>\<open>isConnected\<close> throws.\<close>

definition failing_create_world :: world where
  "failing_create_world =
     stored_credentials_world
       \<lparr>m_alarms_create :=
          \<lparr>once = [Resolved (), Rejected (Error ''Alarm error'')], dflt = Resolved ()\<rparr>\<rparr>"

section \<open>Concurrently issued connect calls\<close>

text \<open>
  JavaScript runs one task at a time and switches tasks only at an \<^verbatim>\<open>await\<close>.  A call of
  \<^verbatim>\<open>connect\<close> is therefore a task that is suspended at one of its four awaits, holding
  the settled promise it will resume with, or that has settled.  \<open>connect_step\<close> runs a
  task from one await to the next: the code between two awaits is atomic, and it reads
  \<^verbatim>\<open>_client\<close> as the other tasks left it.
\<close>

datatype task =
    Issued string string
  | AwaitReady string string "unit outcome"
  | AwaitClientConnect "bool outcome"
  | AwaitClientState "agent_state option outcome"
  | AwaitSetControllerId "unit outcome"
  | Settled "connect_result outcome"

definition settle :: "connect_result js \<Rightarrow> world \<Rightarrow> task \<times> world" where
  "settle m w = (case m w of (r, w') \<Rightarrow> (Settled r, w'))"

fun connect_step :: "task \<Rightarrow> world \<Rightarrow> task \<times> world" where
  "connect_step (Issued agentUrl passcode) w =
     (case call_ready w of (r, w') \<Rightarrow> (AwaitReady agentUrl passcode r, w'))"
| "connect_step (AwaitReady agentUrl passcode (Rejected e)) w = settle (connect_catch e) w"
| "connect_step (AwaitReady agentUrl passcode (Resolved _)) w =
     (case bind_js (new_SignifyClient agentUrl passcode) (\<lambda>c. assign_client (Some c)) w of
        (Rejected e, w') \<Rightarrow> settle (connect_catch e) w'
      | (Resolved _, w') \<Rightarrow>
          (case client w' of
             None \<Rightarrow>
               settle (connect_catch
                 (TypeError ''Cannot read properties of null (reading 'connect')'')) w'
           | Some _ \<Rightarrow>
               (case call_client_connect w' of (r, w'') \<Rightarrow> (AwaitClientConnect r, w''))))"
| "connect_step (AwaitClientConnect (Rejected e)) w = settle (connect_catch e) w"
| "connect_step (AwaitClientConnect (Resolved _)) w =
     (case client w of
        None \<Rightarrow>
          settle (connect_catch
            (TypeError ''Cannot read properties of null (reading 'state')'')) w
      | Some _ \<Rightarrow> (case call_client_state w of (r, w') \<Rightarrow> (AwaitClientState r, w')))"
| "connect_step (AwaitClientState (Rejected e)) w = settle (connect_catch e) w"
| "connect_step (AwaitClientState (Resolved state)) w =
     (case call_setControllerId (controller_i state) w of
        (r, w') \<Rightarrow> (AwaitSetControllerId r, w'))"
| "connect_step (AwaitSetControllerId (Rejected e)) w = settle (connect_catch e) w"
| "connect_step (AwaitSetControllerId (Resolved _)) w =
     (case call_alarms_create ''passcode-timeout'' 5 w of
        (Rejected e, w') \<Rightarrow> settle (connect_catch e) w'
      | (Resolved _, w') \<Rightarrow> (Settled (Resolved Undefined), w'))"
| "connect_step (Settled r) w = (Settled r, w)"

text \<open>
  An interleaving is the list of the tasks resumed, in order.  Resuming a settled task,
  or one that does not exist, does nothing.
\<close>

fun run_schedule :: "nat list \<Rightarrow> task list \<Rightarrow> world \<Rightarrow> task list \<times> world" where
  "run_schedule [] ts w = (ts, w)"
| "run_schedule (k # ks) ts w =
     (if k < length ts
      then (case connect_step (ts ! k) w of (t', w') \<Rightarrow> run_schedule ks (ts[k := t']) w')
      else run_schedule ks ts w)"

definition is_settled :: "task \<Rightarrow> bool" where
  "is_settled t = (case t of Settled _ \<Rightarrow> True | _ \<Rightarrow> False)"

text \<open>The constructor calls a task still has before it, when \<^verbatim>\<open>ready()\<close> resolves.\<close>

fun to_construct :: "task \<Rightarrow> nat" where
  "to_construct (Issued _ _) = 1"
| "to_construct (AwaitReady _ _ (Resolved _)) = 1"
| "to_construct _ = 0"

section \<open>Observations on a world\<close>

definition rejects :: "'a outcome \<Rightarrow> bool" where
  "rejects r = (case r of Resolved _ \<Rightarrow> False | Rejected _ \<Rightarrow> True)"

text \<open>A mock with no rejection queued and none as its default.\<close>

definition never_rejects :: "'a mock \<Rightarrow> bool" where
  "never_rejects m = (\<not> rejects (dflt m) \<and> list_all (\<lambda>r. \<not> rejects r) (once m))"

text \<open>The controller identifier a call event carries: that of a resolved state query.\<close>

definition state_query_id :: "event \<Rightarrow> string option" where
  "state_query_id ev =
     (case ev of CallClientState (Resolved st) \<Rightarrow> controller_i st | _ \<Rightarrow> None)"

text \<open>
  The persisted credentials: the stored controller identifier, and the passcode and
  agent URL behind their two getters.
\<close>

definition credentials :: "world \<Rightarrow> string option \<times> string option mock \<times> string option mock" where
  "credentials w = (stored_controllerId w, m_getPasscode w, m_getAgentUrl w)"

definition is_alarm_call :: "event \<Rightarrow> bool" where
  "is_alarm_call ev =
     (case ev of CallAlarmsCreate _ _ \<Rightarrow> True | CallAlarmsClear _ \<Rightarrow> True | _ \<Rightarrow> False)"

definition alarm_calls :: "world \<Rightarrow> event list" where
  "alarm_calls w = filter is_alarm_call (calls w)"

definition is_construction :: "event \<Rightarrow> bool" where
  "is_construction ev = (case ev of CallSignifyClient _ _ \<Rightarrow> True | _ \<Rightarrow> False)"

definition constructions :: "world \<Rightarrow> nat" where
  "constructions w = length (filter is_construction (calls w))"

text \<open>The controller identifier a state query gives: none when it rejects.\<close>

definition resolved_id :: "agent_state option outcome \<Rightarrow> string option" where
  "resolved_id r = (case r of Resolved st \<Rightarrow> controller_i st | Rejected _ \<Rightarrow> None)"

text \<open>The world once \<^verbatim>\<open>isConnected\<close> has made its two credential reads.\<close>

definition after_reads :: "world \<Rightarrow> world" where
  "after_reads w = snd (call_getAgentUrl (snd (call_getPasscode w)))"

text \<open>
  The condition \<^verbatim>\<open>url && passcode && !_client\<close> of \<^verbatim>\<open>isConnected\<close>, on what the two
  reads will resolve with: the call will reconnect with \<open>url\<close> and \<open>passcode\<close>.
\<close>

definition reconnects :: "world \<Rightarrow> string \<Rightarrow> string \<Rightarrow> bool" where
  "reconnects w url passcode =
     (next_outcome (m_getPasscode w) = Resolved (Some passcode) \<and>
      next_outcome (m_getAgentUrl w) = Resolved (Some url) \<and>
      url \<noteq> [] \<and> passcode \<noteq> [] \<and> client w = None)"

text \<open>
  Valid credentials: no collaborator that \<^verbatim>\<open>connect\<close> calls ever fails.
\<close>

definition valid_credentials :: "world \<Rightarrow> bool" where
  "valid_credentials w =
     (never_rejects (m_ready w) \<and> never_rejects (m_SignifyClient w) \<and>
      never_rejects (m_client_connect w) \<and> never_rejects (m_client_state w) \<and>
      never_rejects (m_setControllerId w) \<and> never_rejects (m_alarms_create w))"

text \<open>A task that has met no failure, and a task that has not reached the constructor.\<close>

fun on_course :: "task \<Rightarrow> bool" where
  "on_course (Issued _ _) = True"
| "on_course (AwaitReady _ _ r) = (\<not> rejects r)"
| "on_course (AwaitClientConnect r) = (\<not> rejects r)"
| "on_course (AwaitClientState r) = (\<not> rejects r)"
| "on_course (AwaitSetControllerId r) = (\<not> rejects r)"
| "on_course (Settled r) = (r = Resolved Undefined)"

fun before_construction :: "task \<Rightarrow> bool" where
  "before_construction (Issued _ _) = True"
| "before_construction (AwaitReady _ _ _) = True"
| "before_construction _ = False"

section \<open>The popup components\<close>

text \<open>
  Modelled from the spec: \<^verbatim>\<open>ISignin\<close> is declared in \<^verbatim>\<open>@config/types\<close>, which is not in the
  sources.  Its fields are those of the spec's SigninRecord and those the components
  read (\<^verbatim>\<open>signin.id\<close>, \<^verbatim>\<open>signin.domain\<close>, \<^verbatim>\<open>signin?.identifier?.name\<close>,
  \<^verbatim>\<open>signin.updatedAt\<close>).
\<close>

record aid =
  aid_name :: string
  aid_prefix :: string

record signin =
  signin_id :: string
  domain :: string
  signin_identifier :: "aid option"
  autoSignin :: bool
  updatedAt :: nat

subsection \<open>SigninList: deleteSignin and updateAutoSignin\<close>

text \<open>The requests \<^verbatim>\<open>sendMessage\<close> carries to the background, by \<^verbatim>\<open>UI_EVENTS\<close> type.\<close>

datatype ui_request =
    FetchResourceSignins
  | DeleteResourceSignins string
  | UpdateResourceAutoSignin signin

text \<open>The messages \<^verbatim>\<open>chrome.tabs.sendMessage\<close> carries to a tab, by subtype.\<close>

datatype tab_message = GetTabState | ReloadState "string option"

text \<open>
  What a call of \<^verbatim>\<open>deleteSignin\<close> or \<^verbatim>\<open>updateAutoSignin\<close> does, in order.
  \<open>ReplyReceived\<close> is the point where \<^verbatim>\<open>await sendMessage(...)\<close> resumes: the
  background handler has completed and its reply is in hand.
\<close>

datatype ui_event =
    SendMessage ui_request
  | ReplyReceived
  | SetSignins "signin list option"
  | TabsQuery
  | TabsSendMessage "nat option" tab_message

text \<open>
  The \<^verbatim>\<open>data\<close> of the two replies.  A reply is \<open>Resolved None\<close> when it has no
  \<^verbatim>\<open>data\<close>, and \<open>Rejected\<close> when \<^verbatim>\<open>sendMessage\<close> rejects or the destructuring of its
  value throws.
\<close>

record delete_data =
  isDeleted :: bool
  del_signins :: "signin list option"

record update_data =
  upd_signins :: "signin list option"

text \<open>
  The active tab as the callback of \<^verbatim>\<open>chrome.tabs.query\<close> meets it: the identifiers of
  the tabs found, and the outcome of the \<^verbatim>\<open>get-tab-state\<close> message, \<open>Resolved v\<close> with
  \<open>v\<close> the reply's \<^verbatim>\<open>data?.tabState\<close>, \<open>Rejected\<close> when no content script answers.
\<close>

record tab_env =
  tabs :: "nat option list"
  tab_state_reply :: "string option outcome"

text \<open>
  The async callback given to \<^verbatim>\<open>chrome.tabs.query\<close>.  Nothing awaits the promise it
  returns, so its rejection reaches no caller; the \<^verbatim>\<open>reload-state\<close> message is sent
  without \<^verbatim>\<open>await\<close>.
\<close>

definition reload_callback :: "tab_env \<Rightarrow> unit outcome \<times> ui_event list" where
  "reload_callback env =
     (case tabs env of
        [] \<Rightarrow> (Rejected (TypeError ''Cannot read properties of undefined (reading 'id')''), [])
      | tab # _ \<Rightarrow>
          (case tab_state_reply env of
             Rejected e \<Rightarrow> (Rejected e, [TabsSendMessage tab GetTabState])
           | Resolved tabState \<Rightarrow>
               (Resolved (),
                [TabsSendMessage tab GetTabState, TabsSendMessage tab (ReloadState tabState)])))"

definition notify_active_tab :: "tab_env \<Rightarrow> ui_event list" where
  "notify_active_tab env = TabsQuery # snd (reload_callback env)"

text \<open>
  The two mutations.  The result is how the call settles and the \<^verbatim>\<open>signins\<close> state of
  the component after it, next to the events of the call.
\<close>

definition deleteSignin ::
  "string \<Rightarrow> delete_data option outcome \<Rightarrow> tab_env \<Rightarrow> signin list option
     \<Rightarrow> (unit outcome \<times> signin list option) \<times> ui_event list" where
  "deleteSignin i reply env signins =
     (case reply of
        Rejected e \<Rightarrow> ((Rejected e, signins), [SendMessage (DeleteResourceSignins i)])
      | Resolved data \<Rightarrow>
          (if (case data of None \<Rightarrow> False | Some d \<Rightarrow> isDeleted d)
           then ((Resolved (), Option.bind data del_signins),
                 [SendMessage (DeleteResourceSignins i), ReplyReceived,
                  SetSignins (Option.bind data del_signins)] @ notify_active_tab env)
           else ((Resolved (), signins),
                 [SendMessage (DeleteResourceSignins i), ReplyReceived])))"

definition updateAutoSignin ::
  "signin \<Rightarrow> update_data option outcome \<Rightarrow> tab_env \<Rightarrow> signin list option
     \<Rightarrow> (unit outcome \<times> signin list option) \<times> ui_event list" where
  "updateAutoSignin signin reply env signins =
     (case reply of
        Rejected e \<Rightarrow> ((Rejected e, signins), [SendMessage (UpdateResourceAutoSignin signin)])
      | Resolved data \<Rightarrow>
          (if Option.bind data upd_signins \<noteq> None
           then ((Resolved (), Option.bind data upd_signins),
                 [SendMessage (UpdateResourceAutoSignin signin), ReplyReceived,
                  SetSignins (Option.bind data upd_signins)] @ notify_active_tab env)
           else ((Resolved (), signins),
                 [SendMessage (UpdateResourceAutoSignin signin), ReplyReceived])))"

definition is_reload :: "ui_event \<Rightarrow> bool" where
  "is_reload ev = (case ev of TabsSendMessage _ (ReloadState _) \<Rightarrow> True | _ \<Rightarrow> False)"

text \<open>No \<^verbatim>\<open>reload-state\<close> message among the events that come before the reply.\<close>

definition reload_only_after_reply :: "ui_event list \<Rightarrow> bool" where
  "reload_only_after_reply evs =
     list_all (\<lambda>ev. \<not> is_reload ev) (takeWhile (\<lambda>ev. ev \<noteq> ReplyReceived) evs)"

text \<open>A record, a reply that deleted it, and two active tabs: one that answers, one with no
  content script.\<close>

definition example_signin :: signin where
  "example_signin =
     \<lparr>signin_id = ''a'', domain = ''x.com'', signin_identifier = None,
      autoSignin = False, updatedAt = 0\<rparr>"

definition deleted_reply :: "delete_data option outcome" where
  "deleted_reply = Resolved (Some \<lparr>isDeleted = True, del_signins = Some []\<rparr>)"

definition answering_tab :: tab_env where
  "answering_tab = \<lparr>tabs = [Some 7], tab_state_reply = Resolved (Some ''default'')\<rparr>"

definition silent_tab :: tab_env where
  "silent_tab =
     \<lparr>tabs = [Some 7],
      tab_state_reply =
        Rejected (Error ''Could not establish connection. Receiving end does not exist.'')\<rparr>"

subsection \<open>The registry's delete\<close>

text \<open>
  Modelled from the spec: the handler of \<^verbatim>\<open>delete_resource_signins\<close> runs in the
  background and is not in the sources; only its caller \<^verbatim>\<open>deleteSignin\<close> is.  The spec
  (4.2): \<^verbatim>\<open>delete(id)\<close> gives \<^verbatim>\<open>(success, remaining)\<close>; it "removes the record with
  matching id", and "deleting a non-existent id returns success=false and the unchanged
  collection, not an error".
\<close>

definition registry_delete :: "string \<Rightarrow> signin list \<Rightarrow> (bool \<times> signin list) outcome" where
  "registry_delete i signins =
     (if i \<in> signin_id ` set signins
      then Resolved (True, filter (\<lambda>s. signin_id s \<noteq> i) signins)
      else Resolved (False, signins))"

subsection \<open>SigninItem: handleClick\<close>

record signed_headers_request =
  req_type :: string
  req_subtype :: string
  req_signin :: string

type_synonym headers = "(string \<times> string) list"

datatype item_event =
    RuntimeSendMessage signed_headers_request
  | ConsoleLog headers
  | Alert string
  | RemoveElement string

text \<open>
  \<open>signin\<close> is the prop of the component the handler is closed over, \<open>reply\<close> the outcome
  of \<^verbatim>\<open>chrome.runtime.sendMessage\<close>, \<open>root_present\<close> whether the document has an element
  \<^verbatim>\<open>__root\<close>.
\<close>

definition handleClick :: "signin \<Rightarrow> headers outcome \<Rightarrow> bool \<Rightarrow> unit outcome \<times> item_event list" where
  "handleClick signin reply root_present =
     (case reply of
        Rejected e \<Rightarrow>
          (Rejected e,
           [RuntimeSendMessage
              \<lparr>req_type = ''authentication'', req_subtype = ''get-signed-headers'',
               req_signin = ''selectedAID''\<rparr>])
      | Resolved hs \<Rightarrow>
          (Resolved (),
           [RuntimeSendMessage
              \<lparr>req_type = ''authentication'', req_subtype = ''get-signed-headers'',
               req_signin = ''selectedAID''\<rparr>,
            ConsoleLog hs, Alert ''Signed headers received''] @
           (if root_present then [RemoveElement ''__root''] else [])))"

definition sent_requests :: "item_event list \<Rightarrow> signed_headers_request list" where
  "sent_requests evs =
     concat (map (\<lambda>ev. case ev of RuntimeSendMessage r \<Rightarrow> [r] | _ \<Rightarrow> []) evs)"

section \<open>Facts about the model\<close>

lemmas prim_defs = call_ready_def new_SignifyClient_def call_client_connect_def
  call_client_state_def call_setControllerId_def call_getPasscode_def call_getAgentUrl_def
  call_alarms_create_def call_alarms_clear_def console_error_def assign_client_def
  deref_client_connect_def deref_client_state_def optional_client_state_def

lemmas monad_defs = return_js_def bind_js_def try_catch_def


lemmas observe_defs = rejects_def never_rejects_def state_query_id_def credentials_def
  is_alarm_call_def alarm_calls_def is_construction_def constructions_def controller_i_def
  truthy_def

lemma never_rejects_consume:
  "never_rejects m \<Longrightarrow> never_rejects (consume m) \<and> \<not> rejects (next_outcome m)"
  by (cases "once m") (auto simp: never_rejects_def consume_def next_outcome_def)

text \<open>\<^verbatim>\<open>connect\<close> never rejects, and holds a handle exactly when it resolves with
  \<^verbatim>\<open>undefined\<close>.\<close>

lemma connect_resolves:
  "connect a p w = (r, w') \<Longrightarrow>
     (r = Resolved Undefined \<and> client w' \<noteq> None) \<or>
     (\<exists>e. r = Resolved (ErrorObject e) \<and> client w' = None)"
  by (auto simp add: connect_def connect_catch_def monad_defs prim_defs
      split: outcome.splits option.splits prod.splits)

text \<open>The mocks \<^verbatim>\<open>connect\<close> never calls, and the one it calls at most once.\<close>

lemma connect_frame:
  assumes "connect a p w = (r, w')"
  shows "m_getPasscode w' = m_getPasscode w" "m_getAgentUrl w' = m_getAgentUrl w"
    "m_alarms_clear w' = m_alarms_clear w"
    "m_alarms_create w' = m_alarms_create w \<or> m_alarms_create w' = consume (m_alarms_create w)"
  using assms
  by (auto simp add: connect_def connect_catch_def monad_defs prim_defs
      split: outcome.splits option.splits prod.splits)

lemma connect_success_calls:
  assumes "connect a p w = (Resolved Undefined, w')"
  shows "calls w' =
    calls w @
    [CallReady, CallSignifyClient a p, CallClientConnect,
     CallClientState (next_outcome (m_client_state w)),
     CallSetControllerId
       (controller_i (case next_outcome (m_client_state w) of
                        Resolved st \<Rightarrow> st | Rejected _ \<Rightarrow> None)),
     CallAlarmsCreate ''passcode-timeout'' 5]"
  using assms
  by (auto simp add: connect_def connect_catch_def monad_defs prim_defs
      split: outcome.splits option.splits prod.splits)

lemma connect_constructs:
  assumes "connect a p w = (r, w')" and "\<not> rejects (next_outcome (m_ready w))"
  shows "constructions w' = constructions w + 1"
  using assms
  by (auto simp add: connect_def connect_catch_def monad_defs prim_defs rejects_def
      constructions_def is_construction_def split: outcome.splits option.splits prod.splits)

lemma reconnect_after_connect:
  "connect u p w = (Resolved x, w1) \<Longrightarrow>
   reconnect u p w =
     bind_js (call_alarms_clear ''passcode-timeout'')
       (\<lambda>_. call_alarms_create ''passcode-timeout'' 5) w1"
  by (simp add: reconnect_def bind_js_def)

lemma reconnect_resolves:
  assumes "reconnect u p w = (r, w')"
    and "never_rejects (m_alarms_clear w)" "never_rejects (m_alarms_create w)"
  shows "r = Resolved ()"
proof -
  obtain x w1 where c: "connect u p w = (x, w1)" by (cases "connect u p w")
  from connect_resolves [OF c] obtain y where x: "x = Resolved y" by blast
  from connect_frame [OF c] assms(2,3) never_rejects_consume [of "m_alarms_create w"]
  have a: "never_rejects (m_alarms_clear w1)" and b: "never_rejects (m_alarms_create w1)"
    by auto
  from never_rejects_consume [OF a] never_rejects_consume [OF b]
  show ?thesis
    using c x assms(1)
    by (auto simp add: reconnect_def bind_js_def call_alarms_clear_def call_alarms_create_def
        rejects_def split: outcome.splits)
qed

lemma isConnected_with_handle:
  assumes "isConnected w = (r, w')" and "client w \<noteq> None"
  shows "constructions w' = constructions w \<and> client w' = client w"
  using assms
  by (auto simp add: isConnected_def monad_defs prim_defs constructions_def is_construction_def
      split: outcome.splits option.splits prod.splits)

text \<open>The awaits of \<^verbatim>\<open>isConnected\<close> that stand outside its \<^verbatim>\<open>try\<close>: the two credential
  reads, and the alarm calls of the reconnect.\<close>

lemma isConnected_returns:
  assumes "isConnected w = (r, w')"
    and "\<not> rejects (next_outcome (m_getPasscode w))"
    and "\<not> rejects (next_outcome (m_getAgentUrl w))"
    and "never_rejects (m_alarms_clear w)" and "never_rejects (m_alarms_create w)"
  shows "\<exists>b. r = Resolved b"
  using assms
  by (auto simp add: isConnected_def monad_defs prim_defs rejects_def
      split: outcome.splits option.splits prod.splits if_splits dest: reconnect_resolves)

text \<open>
  The outcome of \<^verbatim>\<open>isConnected\<close> from what its collaborators will answer: a read that
  rejects, the path without reconnect, and the path with it.
\<close>

lemma isConnected_passcode_rejects:
  "next_outcome (m_getPasscode w) = Rejected e \<Longrightarrow> fst (isConnected w) = Rejected e"
  by (simp add: isConnected_def bind_js_def call_getPasscode_def)

lemma isConnected_url_rejects:
  assumes "\<not> rejects (next_outcome (m_getPasscode w))"
    and "next_outcome (m_getAgentUrl w) = Rejected e"
  shows "fst (isConnected w) = Rejected e"
  using assms
  by (auto simp add: isConnected_def bind_js_def call_getPasscode_def call_getAgentUrl_def
      rejects_def split: outcome.splits)

lemma isConnected_no_reconnect:
  assumes "next_outcome (m_getPasscode w) = Resolved pc"
    and "next_outcome (m_getAgentUrl w) = Resolved url"
    and "\<not> (\<exists>u p. reconnects w u p)"
  shows "fst (isConnected w) =
           Resolved (client w \<noteq> None \<and> truthy (resolved_id (next_outcome (m_client_state w))))"
  using assms
  by (auto simp add: isConnected_def monad_defs prim_defs reconnects_def resolved_id_def truthy_def
      split: outcome.splits option.splits)

lemma isConnected_reconnect:
  assumes "reconnects w u p" and "c = connect u p (after_reads w)"
  shows "fst (isConnected w) =
     (case next_outcome (m_alarms_clear w) of
        Rejected e \<Rightarrow> Rejected e
      | Resolved _ \<Rightarrow>
          (case next_outcome (m_alarms_create (snd c)) of
             Rejected e \<Rightarrow> Rejected e
           | Resolved _ \<Rightarrow>
               Resolved (client (snd c) \<noteq> None \<and>
                         truthy (resolved_id (next_outcome (m_client_state (snd c)))))))"
proof -
  obtain x w1 where c: "c = (x, w1)" by (cases c)
  with assms(2) have c': "connect u p (after_reads w) = (x, w1)" by simp
  from assms(1) have gp: "next_outcome (m_getPasscode w) = Resolved (Some p)"
    and gu: "next_outcome (m_getAgentUrl w) = Resolved (Some u)"
    and ne: "u \<noteq> []" "p \<noteq> []" and nc: "client w = None"
    by (simp_all add: reconnects_def)
  have mid: "client (after_reads w) = None"
    using nc by (simp add: after_reads_def call_getAgentUrl_def call_getPasscode_def)
  have clr: "m_alarms_clear w1 = m_alarms_clear w"
    using connect_frame(3) [OF c']
    by (simp add: after_reads_def call_getAgentUrl_def call_getPasscode_def)
  have steps: "isConnected w =
      (case call_alarms_clear ''passcode-timeout'' w1 of
         (Rejected e, w2) \<Rightarrow> (Rejected e, w2)
       | (Resolved _, w2) \<Rightarrow>
           (case call_alarms_create ''passcode-timeout'' 5 w2 of
              (Rejected e, w3) \<Rightarrow> (Rejected e, w3)
            | (Resolved _, w3) \<Rightarrow>
                try_catch
                 (bind_js optional_client_state (\<lambda>state.
                   (\<lambda>w. return_js (client w \<noteq> None \<and> truthy (controller_i state)) w)))
                 (\<lambda>error. return_js False) w3))"
    using connect_resolves [OF c'] gp gu ne mid c'
    apply (simp add: isConnected_def)
    apply (subst bind_js_def)
    apply (simp add: call_getPasscode_def [of w])
    apply (subst bind_js_def)
    apply (simp only: call_getAgentUrl_def
        [of "w\<lparr>m_getPasscode := consume (m_getPasscode w), calls := calls w @ [CallGetPasscode]\<rparr>"])
    apply (auto simp add: reconnect_def bind_js_def call_getAgentUrl_def call_getPasscode_def
        after_reads_def split: outcome.splits prod.splits)
    done
  show ?thesis
    unfolding steps c using clr
    by (auto simp add: monad_defs prim_defs resolved_id_def truthy_def
        split: outcome.splits option.splits prod.splits)
qed



lemma isConnected_log:
  assumes "isConnected w = (r, w')"
  shows "calls w' \<noteq> [] \<and>
         (r = Resolved True \<longleftrightarrow>
            client w' \<noteq> None \<and> truthy (state_query_id (last (calls w')))) \<and>
         (\<forall>e. last (calls w') = CallClientState (Rejected e) \<longrightarrow> r = Resolved False)"
  using assms
  by (auto simp add: isConnected_def reconnect_def connect_def connect_catch_def monad_defs
        prim_defs state_query_id_def truthy_def
      split: outcome.splits option.splits prod.splits if_splits)

subsection \<open>Interleaved connect calls\<close>

text \<open>A task resumed five times with no other task in between is the call of
  \<^verbatim>\<open>connect\<close>.\<close>

lemma lone_task_is_connect:
  "run_schedule [0, 0, 0, 0, 0] [Issued a p] w = ([Settled (fst (connect a p w))], snd (connect a p w))"
  by (auto simp add: connect_def connect_catch_def settle_def monad_defs prim_defs
      split: outcome.splits option.splits prod.splits if_splits)

text \<open>While \<^verbatim>\<open>ready()\<close> never rejects, a step makes a constructor call exactly when the
  task had one before it.\<close>

lemma connect_step_constructions:
  assumes "never_rejects (m_ready w)" and "connect_step t w = (t', w')"
  shows "never_rejects (m_ready w') \<and>
         constructions w' + to_construct t' = constructions w + to_construct t"
  using assms never_rejects_consume [of "m_ready w"]
  by (cases "(t, w)" rule: connect_step.cases)
     (auto simp add: rejects_def connect_catch_def settle_def monad_defs prim_defs
        constructions_def is_construction_def
      split: outcome.splits option.splits prod.splits if_splits)

lemma sum_list_map_update:
  fixes f :: "'a \<Rightarrow> nat"
  shows "k < length ts \<Longrightarrow>
         sum_list (map f (ts[k := t])) + f (ts ! k) = sum_list (map f ts) + f t"
proof (induction ts arbitrary: k)
  case Nil
  then show ?case by simp
next
  case (Cons x xs)
  then show ?case by (cases k) auto
qed

lemma run_schedule_constructions:
  "never_rejects (m_ready w) \<Longrightarrow> run_schedule ks ts w = (ts', w') \<Longrightarrow>
   constructions w' + sum_list (map to_construct ts') =
   constructions w + sum_list (map to_construct ts)"
proof (induction ks arbitrary: ts w)
  case Nil
  then show ?case by simp
next
  case (Cons k ks)
  show ?case
  proof (cases "k < length ts")
    case False
    with Cons show ?thesis by simp
  next
    case True
    obtain t1 w1 where st: "connect_step (ts ! k) w = (t1, w1)"
      by (cases "connect_step (ts ! k) w")
    from connect_step_constructions [OF Cons.prems(1) st]
    have nr: "never_rejects (m_ready w1)"
      and eq: "constructions w1 + to_construct t1 = constructions w + to_construct (ts ! k)"
      by simp_all
    from Cons.prems(2) True st have "run_schedule ks (ts[k := t1]) w1 = (ts', w')" by simp
    from Cons.IH [OF nr this]
    have "constructions w' + sum_list (map to_construct ts') =
          constructions w1 + sum_list (map to_construct (ts[k := t1]))" .
    moreover
    have "sum_list (map to_construct (ts[k := t1])) + to_construct (ts ! k) =
          sum_list (map to_construct ts) + to_construct t1"
      using True by (rule sum_list_map_update)
    ultimately show ?thesis using eq by linarith
  qed
qed

lemma settled_nothing_to_construct:
  "list_all is_settled ts \<Longrightarrow> sum_list (map to_construct ts) = 0"
  by (induction ts) (auto simp add: is_settled_def split: task.splits)

lemma issued_all_to_construct:
  "sum_list (map to_construct (replicate n (Issued a p))) = n"
  by (induction n) auto

text \<open>With valid credentials no task fails, under any interleaving: a task past the
  constructor finds the handle some task has assigned, and no task clears it.\<close>

lemma connect_step_on_course:
  assumes "valid_credentials w" and "on_course t"
    and "client w \<noteq> None \<or> before_construction t"
    and "connect_step t w = (t', w')"
  shows "valid_credentials w' \<and> on_course t' \<and>
         (client w \<noteq> None \<longrightarrow> client w' \<noteq> None) \<and>
         (\<not> before_construction t' \<longrightarrow> client w' \<noteq> None)"
  using assms
    never_rejects_consume [of "m_ready w"] never_rejects_consume [of "m_SignifyClient w"]
    never_rejects_consume [of "m_client_connect w"] never_rejects_consume [of "m_client_state w"]
    never_rejects_consume [of "m_setControllerId w"] never_rejects_consume [of "m_alarms_create w"]
  by (cases "(t, w)" rule: connect_step.cases)
     (auto simp add: valid_credentials_def rejects_def connect_catch_def settle_def monad_defs
        prim_defs
      split: outcome.splits option.splits prod.splits if_splits)

lemma run_schedule_on_course:
  "valid_credentials w \<Longrightarrow> list_all on_course ts \<Longrightarrow>
   client w \<noteq> None \<or> list_all before_construction ts \<Longrightarrow>
   run_schedule ks ts w = (ts', w') \<Longrightarrow>
   list_all on_course ts' \<and> length ts' = length ts"
proof (induction ks arbitrary: ts w)
  case Nil
  then show ?case by simp
next
  case (Cons k ks)
  show ?case
  proof (cases "k < length ts")
    case False
    with Cons show ?thesis by simp
  next
    case True
    obtain t1 w1 where st: "connect_step (ts ! k) w = (t1, w1)"
      by (cases "connect_step (ts ! k) w")
    have tk: "on_course (ts ! k)" "client w \<noteq> None \<or> before_construction (ts ! k)"
      using Cons.prems(2,3) True by (auto simp add: list_all_length)
    from connect_step_on_course [OF Cons.prems(1) tk st]
    have v: "valid_credentials w1" and o: "on_course t1"
      and c1: "client w \<noteq> None \<longrightarrow> client w1 \<noteq> None"
      and c2: "\<not> before_construction t1 \<longrightarrow> client w1 \<noteq> None" by simp_all
    have a: "list_all on_course (ts[k := t1])"
      using Cons.prems(2) o True by (auto simp add: list_all_length nth_list_update)
    have b: "client w1 \<noteq> None \<or> list_all before_construction (ts[k := t1])"
      using Cons.prems(3) c1 c2 True by (auto simp add: list_all_length nth_list_update)
    from Cons.prems(4) True st have "run_schedule ks (ts[k := t1]) w1 = (ts', w')" by simp
    from Cons.IH [OF v a b this] show ?thesis by simp
  qed
qed

lemma on_course_settled:
  "list_all on_course ts \<Longrightarrow> list_all is_settled ts \<Longrightarrow>
   ts = replicate (length ts) (Settled (Resolved Undefined))"
  by (induction ts) (auto simp add: is_settled_def split: task.splits)

section \<open>The claims\<close>

subsection \<open>C1: concurrently issued connect calls\<close>

text \<open>
  C1 says that concurrently issued \<^verbatim>\<open>connect\<close> calls with the same valid credentials
  create exactly one client handle, later callers awaiting the attempt in flight.
  \<^verbatim>\<open>connect\<close> has no such guard.  Two calls issued together in the world of the test
  file, resumed in turn as the microtask queue resumes them, both resolve with
  \<^verbatim>\<open>undefined\<close>, and the constructor has been called twice.
\<close>

theorem two_concurrent_connects_construct_twice:
  "fst (run_schedule [0, 1, 0, 1, 0, 1, 0, 1, 0, 1]
          [Issued ''http://example.com/agent'' ''test-passcode'',
           Issued ''http://example.com/agent'' ''test-passcode''] test_world) =
     [Settled (Resolved Undefined), Settled (Resolved Undefined)] \<and>
   constructions (snd (run_schedule [0, 1, 0, 1, 0, 1, 0, 1, 0, 1]
          [Issued ''http://example.com/agent'' ''test-passcode'',
           Issued ''http://example.com/agent'' ''test-passcode''] test_world)) = 2"
  by code_simp

text \<open>
  C1, as the code has it: of \<open>n\<close> \<^verbatim>\<open>connect\<close> calls issued with the same credentials and
  run to completion under any interleaving of their awaits, each constructs a client of
  its own whenever \<^verbatim>\<open>ready()\<close> does not reject: the constructor is called \<open>n\<close> times; and
  with valid credentials each of the \<open>n\<close> calls succeeds.  No call waits for another.
\<close>

theorem concurrent_connects_construct_once_each:
  assumes "never_rejects (m_ready w)"
    and "run_schedule ks (replicate n (Issued agentUrl passcode)) w = (ts, w')"
    and "list_all is_settled ts"
  shows "constructions w' = constructions w + n \<and>
         (valid_credentials w \<longrightarrow> ts = replicate n (Settled (Resolved Undefined)))"
proof (rule conjI)
  have none_left: "sum_list (map to_construct ts) = 0"
    using assms(3) by (rule settled_nothing_to_construct)
  have all_left: "sum_list (map to_construct (replicate n (Issued agentUrl passcode))) = n"
    by (rule issued_all_to_construct)
  from run_schedule_constructions [OF assms(1,2)]
  have "constructions w' + sum_list (map to_construct ts) =
        constructions w + sum_list (map to_construct (replicate n (Issued agentUrl passcode)))" .
  then show "constructions w' = constructions w + n" unfolding none_left all_left by simp
next
  show "valid_credentials w \<longrightarrow> ts = replicate n (Settled (Resolved Undefined))"
  proof
    assume v: "valid_credentials w"
    have a: "list_all on_course (replicate n (Issued agentUrl passcode))"
      by (induction n) simp_all
    have b: "client w \<noteq> None \<or>
             list_all before_construction (replicate n (Issued agentUrl passcode))"
      by (induction n) simp_all
    from run_schedule_on_course [OF v a b assms(2)]
    have "list_all on_course ts" and "length ts = n" by simp_all
    with on_course_settled [OF _ assms(3)]
    show "ts = replicate n (Settled (Resolved Undefined))" by simp
  qed
qed

theorem concurrent_connects_construct_once_each_witness:
  "valid_credentials test_world \<and>
   fst (run_schedule [0, 1, 2, 0, 0, 1, 2, 2, 1, 0, 1, 2, 0, 1, 2]
          (replicate 3 (Issued ''http://example.com/agent'' ''test-passcode'')) test_world) =
     replicate 3 (Settled (Resolved Undefined)) \<and>
   constructions
     (snd (run_schedule [0, 1, 2, 0, 0, 1, 2, 2, 1, 0, 1, 2, 0, 1, 2]
            (replicate 3 (Issued ''http://example.com/agent'' ''test-passcode'')) test_world)) = 3"
proof -
  let ?run = "run_schedule [0, 1, 2, 0, 0, 1, 2, 2, 1, 0, 1, 2, 0, 1, 2]
            (replicate 3 (Issued ''http://example.com/agent'' ''test-passcode'')) test_world"
  have v: "valid_credentials test_world" by code_simp
  then have a: "never_rejects (m_ready test_world)" by (simp add: valid_credentials_def)
  have b: "?run = (fst ?run, snd ?run)" by simp
  have c: "list_all is_settled (fst ?run)" by code_simp
  have d: "constructions test_world = 0" by code_simp
  from concurrent_connects_construct_once_each [OF a b c] v d show ?thesis by simp
qed

subsection \<open>C2: when isConnected returns true\<close>




subsection \<open>C3: a failing connect\<close>

text \<open>
  C3: \<^verbatim>\<open>connect\<close> never throws: it resolves with \<^verbatim>\<open>undefined\<close>, or with the error object
  and the handle \<^verbatim>\<open>_client\<close> cleared.  If a step of it fails (the initialisation and
  construction of the client, the handshake, the state read-back, the persistence of the
  controller identifier), it resolves with the error object, the handle is cleared, and
  the persisted credentials are as they were.  (The creation of the alarm comes after
  these steps: when it throws, the first part holds and the identifier has been stored.)
\<close>

theorem connect_failure_clears_handle_keeps_credentials:
  assumes "connect agentUrl passcode w = (r, w')"
  shows "(r = Resolved Undefined \<or> (\<exists>e. r = Resolved (ErrorObject e) \<and> client w' = None)) \<and>
         (rejects (next_outcome (m_ready w)) \<or> rejects (next_outcome (m_SignifyClient w)) \<or>
          rejects (next_outcome (m_client_connect w)) \<or>
          rejects (next_outcome (m_client_state w)) \<or>
          rejects (next_outcome (m_setControllerId w)) \<longrightarrow>
            (\<exists>e. r = Resolved (ErrorObject e)) \<and> client w' = None \<and>
            credentials w' = credentials w)"
proof (rule conjI)
  from connect_resolves [OF assms]
  show "r = Resolved Undefined \<or> (\<exists>e. r = Resolved (ErrorObject e) \<and> client w' = None)"
    by blast
next
  show "rejects (next_outcome (m_ready w)) \<or> rejects (next_outcome (m_SignifyClient w)) \<or>
        rejects (next_outcome (m_client_connect w)) \<or>
        rejects (next_outcome (m_client_state w)) \<or>
        rejects (next_outcome (m_setControllerId w)) \<longrightarrow>
          (\<exists>e. r = Resolved (ErrorObject e)) \<and> client w' = None \<and>
          credentials w' = credentials w"
    using assms
    by (auto simp add: connect_def connect_catch_def monad_defs prim_defs rejects_def
          credentials_def
        split: outcome.splits option.splits prod.splits if_splits)
qed

theorem connect_failure_clears_handle_keeps_credentials_witness:
  "rejects (next_outcome (m_client_connect failing_handshake_world)) \<and>
   fst (connect ''http://example.com/agent'' ''test-passcode'' failing_handshake_world) =
     Resolved (ErrorObject (Error ''Connect error'')) \<and>
   client (snd (connect ''http://example.com/agent'' ''test-passcode'' failing_handshake_world)) =
     None \<and>
   credentials (snd (connect ''http://example.com/agent'' ''test-passcode'' failing_handshake_world)) =
     credentials failing_handshake_world"
proof -
  let ?c = "connect ''http://example.com/agent'' ''test-passcode'' failing_handshake_world"
  have h: "rejects (next_outcome (m_client_connect failing_handshake_world))" by code_simp
  have e: "fst ?c = Resolved (ErrorObject (Error ''Connect error''))" by code_simp
  have "?c = (fst ?c, snd ?c)" by simp
  from connect_failure_clears_handle_keeps_credentials [OF this] h e show ?thesis by blast
qed

subsection \<open>C4: what isConnected raises\<close>

text \<open>
  C4 says that \<^verbatim>\<open>isConnected()\<close> never raises, whatever the client handle and the
  stored credentials are.  Only the state query stands inside its \<^verbatim>\<open>try\<close>: the two
  credential reads and the alarm calls of the lazy reconnect stand outside.  With
  credentials stored, no handle, and an alarm service whose \<^verbatim>\<open>clear\<close> rejects,
  \<^verbatim>\<open>isConnected\<close> rejects with that error.
\<close>

theorem isConnected_raises_when_alarm_clear_rejects:
  "client failing_alarm_world = None \<and>
   fst (isConnected failing_alarm_world) = Rejected (Error ''Alarm error'')"
  by code_simp

text \<open>
  C4, as the code has it: \<^verbatim>\<open>isConnected()\<close> rejects exactly when a call outside its
  \<^verbatim>\<open>try\<close> fails, and then with that error: when \<^verbatim>\<open>getPasscode\<close> rejects, when
  \<^verbatim>\<open>getAgentUrl\<close> rejects, and, when it reconnects (no handle, a non-empty passcode and
  agent URL stored), when \<^verbatim>\<open>alarms.clear\<close> rejects or the \<^verbatim>\<open>alarms.create\<close> that follows
  throws.  In every other case it returns, for every client handle and every stored
  credentials; and an error raised by the state query is caught and makes it return
  \<^verbatim>\<open>false\<close>.
\<close>

theorem isConnected_raises_only_outside_state_query:
  assumes "isConnected w = (r, w')"
  shows "(\<forall>e. next_outcome (m_getPasscode w) = Rejected e \<longrightarrow> r = Rejected e) \<and>
         (\<forall>e. \<not> rejects (next_outcome (m_getPasscode w)) \<and>
               next_outcome (m_getAgentUrl w) = Rejected e \<longrightarrow> r = Rejected e) \<and>
         (\<forall>u p e. reconnects w u p \<and> next_outcome (m_alarms_clear w) = Rejected e \<longrightarrow>
               r = Rejected e) \<and>
         (\<forall>u p e. reconnects w u p \<and> \<not> rejects (next_outcome (m_alarms_clear w)) \<and>
               next_outcome (m_alarms_create (snd (connect u p (after_reads w)))) = Rejected e \<longrightarrow>
               r = Rejected e) \<and>
         (\<not> rejects (next_outcome (m_getPasscode w)) \<and>
          \<not> rejects (next_outcome (m_getAgentUrl w)) \<and>
          (\<forall>u p. reconnects w u p \<longrightarrow>
             \<not> rejects (next_outcome (m_alarms_clear w)) \<and>
             \<not> rejects (next_outcome (m_alarms_create (snd (connect u p (after_reads w))))))
            \<longrightarrow> (\<exists>b. r = Resolved b)) \<and>
         (\<not> rejects (next_outcome (m_getPasscode w)) \<and>
          \<not> rejects (next_outcome (m_getAgentUrl w)) \<and>
          never_rejects (m_alarms_clear w) \<and> never_rejects (m_alarms_create w)
            \<longrightarrow> (\<exists>b. r = Resolved b)) \<and>
         (\<forall>e. last (calls w') = CallClientState (Rejected e) \<longrightarrow> r = Resolved False) \<and>
         (\<not> rejects (next_outcome (m_getPasscode w)) \<and>
          \<not> rejects (next_outcome (m_getAgentUrl w)) \<and>
          client w \<noteq> None \<and> rejects (next_outcome (m_client_state w)) \<longrightarrow>
            r = Resolved False)"
proof -
  have r: "fst (isConnected w) = r" using assms by simp
  have a: "r = Rejected e" if "next_outcome (m_getPasscode w) = Rejected e" for e
    using isConnected_passcode_rejects [OF that] r by simp
  have b: "r = Rejected e"
    if "\<not> rejects (next_outcome (m_getPasscode w)) \<and>
        next_outcome (m_getAgentUrl w) = Rejected e" for e
    using that isConnected_url_rejects [of w e] r by simp
  have c: "r = Rejected e"
    if "reconnects w u p \<and> next_outcome (m_alarms_clear w) = Rejected e" for u p e
    using that isConnected_reconnect [of w u p, OF _ refl] r by simp
  have d: "r = Rejected e"
    if "reconnects w u p \<and> \<not> rejects (next_outcome (m_alarms_clear w)) \<and>
        next_outcome (m_alarms_create (snd (connect u p (after_reads w)))) = Rejected e"
    for u p e
    using that isConnected_reconnect [of w u p, OF _ refl] r
    by (auto simp add: rejects_def split: outcome.splits)
  have e: "\<exists>b. r = Resolved b"
    if ok: "\<not> rejects (next_outcome (m_getPasscode w)) \<and>
        \<not> rejects (next_outcome (m_getAgentUrl w)) \<and>
        (\<forall>u p. reconnects w u p \<longrightarrow>
           \<not> rejects (next_outcome (m_alarms_clear w)) \<and>
           \<not> rejects (next_outcome (m_alarms_create (snd (connect u p (after_reads w))))))"
  proof -
    from ok obtain pc url where gp: "next_outcome (m_getPasscode w) = Resolved pc"
      and gu: "next_outcome (m_getAgentUrl w) = Resolved url"
      by (auto simp add: rejects_def split: outcome.splits)
    show ?thesis
    proof (cases "\<exists>u p. reconnects w u p")
      case False
      with isConnected_no_reconnect [OF gp gu] r show ?thesis by auto
    next
      case True
      then obtain u p where rc: "reconnects w u p" by blast
      with ok have "\<not> rejects (next_outcome (m_alarms_clear w)) \<and>
          \<not> rejects (next_outcome (m_alarms_create (snd (connect u p (after_reads w)))))"
        by blast
      with isConnected_reconnect [OF rc refl] r show ?thesis
        by (auto simp add: rejects_def split: outcome.splits)
    qed
  qed
  have f: "\<exists>b. r = Resolved b"
    if "\<not> rejects (next_outcome (m_getPasscode w)) \<and>
        \<not> rejects (next_outcome (m_getAgentUrl w)) \<and>
        never_rejects (m_alarms_clear w) \<and> never_rejects (m_alarms_create w)"
    using isConnected_returns [OF assms] that by blast
  have g: "r = Resolved False" if "last (calls w') = CallClientState (Rejected e)" for e
    using isConnected_log [OF assms] that by blast
  have h: "r = Resolved False"
    if hh: "\<not> rejects (next_outcome (m_getPasscode w)) \<and>
        \<not> rejects (next_outcome (m_getAgentUrl w)) \<and>
        client w \<noteq> None \<and> rejects (next_outcome (m_client_state w))"
  proof -
    from hh obtain pc url where gp: "next_outcome (m_getPasscode w) = Resolved pc"
      and gu: "next_outcome (m_getAgentUrl w) = Resolved url"
      by (auto simp add: rejects_def split: outcome.splits)
    from hh have "\<not> (\<exists>u p. reconnects w u p)" by (simp add: reconnects_def)
    from isConnected_no_reconnect [OF gp gu this] r hh show ?thesis
      by (auto simp add: rejects_def resolved_id_def truthy_def split: outcome.splits)
  qed
  from a b c d e f g h show ?thesis by blast
qed

theorem isConnected_raises_only_outside_state_query_witness:
  "next_outcome (m_getPasscode failing_read_world) = Rejected (Error ''Storage error'') \<and>
   fst (isConnected failing_read_world) = Rejected (Error ''Storage error'') \<and>
   next_outcome (m_getAgentUrl failing_url_world) = Rejected (Error ''Config error'') \<and>
   fst (isConnected failing_url_world) = Rejected (Error ''Config error'') \<and>
   reconnects failing_alarm_world ''http://stored-url.com'' ''stored-passcode'' \<and>
   next_outcome (m_alarms_clear failing_alarm_world) = Rejected (Error ''Alarm error'') \<and>
   fst (isConnected failing_alarm_world) = Rejected (Error ''Alarm error'') \<and>
   reconnects failing_create_world ''http://stored-url.com'' ''stored-passcode'' \<and>
   fst (isConnected failing_create_world) = Rejected (Error ''Alarm error'') \<and>
   client failing_state_world \<noteq> None \<and>
   rejects (next_outcome (m_client_state failing_state_world)) \<and>
   fst (isConnected failing_state_world) = Resolved False \<and>
   (\<exists>b. fst (isConnected stored_credentials_world) = Resolved b)"
proof -
  let ?u = "''http://stored-url.com''" and ?p = "''stored-passcode''"
  have pair: "\<And>w. isConnected w = (fst (isConnected w), snd (isConnected w))" by simp
  note rd = isConnected_raises_only_outside_state_query [OF pair [of failing_read_world]]
  note ur = isConnected_raises_only_outside_state_query [OF pair [of failing_url_world]]
  note al = isConnected_raises_only_outside_state_query [OF pair [of failing_alarm_world]]
  note cr = isConnected_raises_only_outside_state_query [OF pair [of failing_create_world]]
  note st = isConnected_raises_only_outside_state_query [OF pair [of failing_state_world]]
  note ok = isConnected_raises_only_outside_state_query [OF pair [of stored_credentials_world]]
  have rd1: "next_outcome (m_getPasscode failing_read_world) = Rejected (Error ''Storage error'')"
    by code_simp
  from rd [THEN conjunct1, rule_format, OF rd1]
  have rd2: "fst (isConnected failing_read_world) = Rejected (Error ''Storage error'')" .
  have ur0: "\<not> rejects (next_outcome (m_getPasscode failing_url_world))" by code_simp
  have ur1: "next_outcome (m_getAgentUrl failing_url_world) = Rejected (Error ''Config error'')"
    by code_simp
  from ur [THEN conjunct2, THEN conjunct1, rule_format, OF conjI [OF ur0 ur1]]
  have ur2: "fst (isConnected failing_url_world) = Rejected (Error ''Config error'')" .
  have al0: "reconnects failing_alarm_world ?u ?p" by code_simp
  have al1: "next_outcome (m_alarms_clear failing_alarm_world) = Rejected (Error ''Alarm error'')"
    by code_simp
  from al [THEN conjunct2, THEN conjunct2, THEN conjunct1, rule_format, OF conjI [OF al0 al1]]
  have al2: "fst (isConnected failing_alarm_world) = Rejected (Error ''Alarm error'')" .
  have cr0: "reconnects failing_create_world ?u ?p" by code_simp
  have cr1: "\<not> rejects (next_outcome (m_alarms_clear failing_create_world))" by code_simp
  have cr2: "next_outcome (m_alarms_create
               (snd (connect ?u ?p (after_reads failing_create_world)))) =
             Rejected (Error ''Alarm error'')"
    by code_simp
  from cr [THEN conjunct2, THEN conjunct2, THEN conjunct2, THEN conjunct1, rule_format,
           OF conjI [OF cr0 conjI [OF cr1 cr2]]]
  have cr3: "fst (isConnected failing_create_world) = Rejected (Error ''Alarm error'')" .
  have st0: "\<not> rejects (next_outcome (m_getPasscode failing_state_world))" by code_simp
  have st1: "\<not> rejects (next_outcome (m_getAgentUrl failing_state_world))" by code_simp
  have st2: "client failing_state_world \<noteq> None" by code_simp
  have st3: "rejects (next_outcome (m_client_state failing_state_world))" by code_simp
  from st [THEN conjunct2, THEN conjunct2, THEN conjunct2, THEN conjunct2, THEN conjunct2,
           THEN conjunct2, THEN conjunct2, rule_format,
           OF conjI [OF st0 conjI [OF st1 conjI [OF st2 st3]]]]
  have st4: "fst (isConnected failing_state_world) = Resolved False" .
  have ok0: "\<not> rejects (next_outcome (m_getPasscode stored_credentials_world))" by code_simp
  have ok1: "\<not> rejects (next_outcome (m_getAgentUrl stored_credentials_world))" by code_simp
  have ok2: "never_rejects (m_alarms_clear stored_credentials_world)" by code_simp
  have ok3: "never_rejects (m_alarms_create stored_credentials_world)" by code_simp
  from ok [THEN conjunct2, THEN conjunct2, THEN conjunct2, THEN conjunct2, THEN conjunct2,
           THEN conjunct1, rule_format, OF conjI [OF ok0 conjI [OF ok1 conjI [OF ok2 ok3]]]]
  have ok4: "\<exists>b. fst (isConnected stored_credentials_world) = Resolved b" .
  from rd1 rd2 ur1 ur2 al0 al1 al2 cr0 cr3 st2 st3 st4 ok4
  show ?thesis by (intro conjI)
qed

subsection \<open>C5: the alarm after a connect\<close>

text \<open>
  C5 says that after every successful connect or reconnect exactly one alarm
  \<^verbatim>\<open>passcode-timeout\<close> is scheduled, an alarm of that name scheduled before being
  cleared first.  \<^verbatim>\<open>connect\<close> creates the alarm and never clears one: two successful
  \<^verbatim>\<open>connect\<close> calls in a row make two \<^verbatim>\<open>alarms.create\<close> calls and no \<^verbatim>\<open>alarms.clear\<close>
  call between them.
\<close>

theorem second_connect_creates_alarm_without_clear:
  "fst (connect ''http://example.com/agent'' ''test-passcode'' test_world) = Resolved Undefined \<and>
   fst (connect ''http://example.com/agent'' ''test-passcode''
         (snd (connect ''http://example.com/agent'' ''test-passcode'' test_world))) =
     Resolved Undefined \<and>
   alarm_calls (snd (connect ''http://example.com/agent'' ''test-passcode''
         (snd (connect ''http://example.com/agent'' ''test-passcode'' test_world)))) =
     [CallAlarmsCreate ''passcode-timeout'' 5, CallAlarmsCreate ''passcode-timeout'' 5]"
  by code_simp

text \<open>
  C5, as the code has it: a successful \<^verbatim>\<open>connect\<close> makes exactly one alarm call, the
  creation of \<^verbatim>\<open>passcode-timeout\<close> with a delay of 5 minutes, and clears nothing; the
  reconnect of \<^verbatim>\<open>isConnected\<close> then clears that alarm and creates it again, so that
  there the last creation comes straight after a clear.
\<close>

theorem alarm_calls_of_connect_and_reconnect:
  "(fst (connect agentUrl passcode w) = Resolved Undefined \<longrightarrow>
      alarm_calls (snd (connect agentUrl passcode w)) =
        alarm_calls w @ [CallAlarmsCreate ''passcode-timeout'' 5]) \<and>
   (fst (connect agentUrl passcode w) = Resolved Undefined \<and>
    fst (reconnect agentUrl passcode w) = Resolved () \<longrightarrow>
      alarm_calls (snd (reconnect agentUrl passcode w)) =
        alarm_calls w @ [CallAlarmsCreate ''passcode-timeout'' 5,
                         CallAlarmsClear ''passcode-timeout'',
                         CallAlarmsCreate ''passcode-timeout'' 5])"
proof (intro conjI impI)
  assume ok: "fst (connect agentUrl passcode w) = Resolved Undefined"
  then have "connect agentUrl passcode w = (Resolved Undefined, snd (connect agentUrl passcode w))"
    by (simp add: prod_eq_iff)
  from connect_success_calls [OF this]
  show "alarm_calls (snd (connect agentUrl passcode w)) =
        alarm_calls w @ [CallAlarmsCreate ''passcode-timeout'' 5]"
    by (simp add: alarm_calls_def is_alarm_call_def)
next
  assume "fst (connect agentUrl passcode w) = Resolved Undefined \<and>
    fst (reconnect agentUrl passcode w) = Resolved ()"
  then have c: "connect agentUrl passcode w = (Resolved Undefined, snd (connect agentUrl passcode w))"
    and r: "fst (reconnect agentUrl passcode w) = Resolved ()"
    by (simp_all add: prod_eq_iff)
  have "calls (snd (reconnect agentUrl passcode w)) =
      calls (snd (connect agentUrl passcode w)) @
        [CallAlarmsClear ''passcode-timeout'', CallAlarmsCreate ''passcode-timeout'' 5]"
    using r unfolding reconnect_after_connect [OF c]
    by (auto simp add: bind_js_def call_alarms_clear_def call_alarms_create_def
        split: outcome.splits)
  with connect_success_calls [OF c]
  show "alarm_calls (snd (reconnect agentUrl passcode w)) =
        alarm_calls w @ [CallAlarmsCreate ''passcode-timeout'' 5,
                         CallAlarmsClear ''passcode-timeout'',
                         CallAlarmsCreate ''passcode-timeout'' 5]"
    by (simp add: alarm_calls_def is_alarm_call_def)
qed

theorem alarm_calls_of_connect_and_reconnect_witness:
  "fst (connect ''http://stored-url.com'' ''stored-passcode'' test_world) = Resolved Undefined \<and>
   alarm_calls (snd (connect ''http://stored-url.com'' ''stored-passcode'' test_world)) =
     [CallAlarmsCreate ''passcode-timeout'' 5] \<and>
   fst (reconnect ''http://stored-url.com'' ''stored-passcode'' test_world) = Resolved () \<and>
   alarm_calls (snd (reconnect ''http://stored-url.com'' ''stored-passcode'' test_world)) =
     [CallAlarmsCreate ''passcode-timeout'' 5, CallAlarmsClear ''passcode-timeout'',
      CallAlarmsCreate ''passcode-timeout'' 5]"
proof -
  have c: "fst (connect ''http://stored-url.com'' ''stored-passcode'' test_world) =
           Resolved Undefined" by code_simp
  have r: "fst (reconnect ''http://stored-url.com'' ''stored-passcode'' test_world) =
           Resolved ()" by code_simp
  have e: "alarm_calls test_world = []" by code_simp
  from alarm_calls_of_connect_and_reconnect
         [of "''http://stored-url.com''" "''stored-passcode''" test_world] c r e
  show ?thesis by simp
qed

subsection \<open>C6: the lazy reconnect of isConnected\<close>

text \<open>
  C6 says that \<^verbatim>\<open>isConnected()\<close>, called with no handle and with a passcode and an agent
  URL stored, connects with them, and on success of that reconnect re-arms the alarm
  and returns \<^verbatim>\<open>true\<close>, the alarm being re-armed only on success.  The code drops the
  value of \<^verbatim>\<open>connect\<close>: when the handshake of the reconnect rejects, \<^verbatim>\<open>isConnected\<close>
  returns \<^verbatim>\<open>false\<close> with no handle, and has cleared and created the alarm all the same.
\<close>

theorem failed_reconnect_still_rearms_alarm:
  "fst (isConnected failing_reconnect_world) = Resolved False \<and>
   client (snd (isConnected failing_reconnect_world)) = None \<and>
   alarm_calls (snd (isConnected failing_reconnect_world)) =
     [CallAlarmsClear ''passcode-timeout'', CallAlarmsCreate ''passcode-timeout'' 5]"
  by code_simp

text \<open>
  C6, as the code has it: when \<^verbatim>\<open>isConnected()\<close> is called with no handle and a
  non-empty passcode and agent URL stored, and returns, it has called \<^verbatim>\<open>connect\<close> with
  the stored credentials (\<open>c\<close> below), then cleared and created the alarm whether or not
  that call succeeded, then queried the state if a handle exists; and it returns
  \<^verbatim>\<open>true\<close> exactly when the reconnect succeeded and that last query gave a non-empty
  controller identifier.
\<close>

theorem isConnected_lazy_reconnect:
  assumes "client w = None"
    and "next_outcome (m_getPasscode w) = Resolved (Some p)"
    and "next_outcome (m_getAgentUrl w) = Resolved (Some u)"
    and "u \<noteq> []" and "p \<noteq> []"
    and "isConnected w = (Resolved b, w')"
    and "c = connect u p (snd (call_getAgentUrl (snd (call_getPasscode w))))"
  shows "calls w' =
           calls (snd c) @
           [CallAlarmsClear ''passcode-timeout'', CallAlarmsCreate ''passcode-timeout'' 5] @
           (case client (snd c) of
              None \<Rightarrow> []
            | Some _ \<Rightarrow> [CallClientState (next_outcome (m_client_state (snd c)))]) \<and>
         b = (fst c = Resolved Undefined \<and> truthy (state_query_id (last (calls w'))))"
proof -
  obtain x w1 where c: "c = (x, w1)" by (cases c)
  with assms(7)
  have c': "connect u p (snd (call_getAgentUrl (snd (call_getPasscode w)))) = (x, w1)" by simp
  have mid: "client (snd (call_getAgentUrl (snd (call_getPasscode w)))) = None"
    using assms(1) by (simp add: call_getAgentUrl_def call_getPasscode_def)
  have steps: "isConnected w =
      (case call_alarms_clear ''passcode-timeout'' w1 of
         (Rejected e, w2) \<Rightarrow> (Rejected e, w2)
       | (Resolved _, w2) \<Rightarrow>
           (case call_alarms_create ''passcode-timeout'' 5 w2 of
              (Rejected e, w3) \<Rightarrow> (Rejected e, w3)
            | (Resolved _, w3) \<Rightarrow>
                try_catch
                 (bind_js optional_client_state (\<lambda>state.
                   (\<lambda>w. return_js (client w \<noteq> None \<and> truthy (controller_i state)) w)))
                 (\<lambda>error. return_js False) w3))"
    using connect_resolves [OF c'] assms(2-5) mid c'
    apply (simp add: isConnected_def)
    apply (subst bind_js_def)
    apply (simp add: call_getPasscode_def [of w])
    apply (subst bind_js_def)
    apply (simp only: call_getAgentUrl_def
        [of "w\<lparr>m_getPasscode := consume (m_getPasscode w), calls := calls w @ [CallGetPasscode]\<rparr>"])
    apply (auto simp add: reconnect_def bind_js_def call_getAgentUrl_def call_getPasscode_def
        split: outcome.splits prod.splits)
    done
  have "calls w' =
           calls (snd c) @
           [CallAlarmsClear ''passcode-timeout'', CallAlarmsCreate ''passcode-timeout'' 5] @
           (case client (snd c) of
              None \<Rightarrow> []
            | Some _ \<Rightarrow> [CallClientState (next_outcome (m_client_state (snd c)))])"
    using assms(6) unfolding steps c
    by (auto simp add: monad_defs prim_defs split: outcome.splits option.splits prod.splits)
  moreover have "b = (fst c = Resolved Undefined \<and> truthy (state_query_id (last (calls w'))))"
    using assms(6) connect_resolves [OF c'] unfolding steps c
    by (auto simp add: monad_defs prim_defs state_query_id_def truthy_def
        split: outcome.splits option.splits prod.splits)
  ultimately show ?thesis by simp
qed

theorem isConnected_lazy_reconnect_witness:
  "client stored_credentials_world = None \<and>
   next_outcome (m_getPasscode stored_credentials_world) = Resolved (Some ''stored-passcode'') \<and>
   next_outcome (m_getAgentUrl stored_credentials_world) =
     Resolved (Some ''http://stored-url.com'') \<and>
   fst (isConnected stored_credentials_world) = Resolved True \<and>
   calls (snd (isConnected stored_credentials_world)) =
     [CallGetPasscode, CallGetAgentUrl, CallReady,
      CallSignifyClient ''http://stored-url.com'' ''stored-passcode'', CallClientConnect,
      CallClientState (Resolved (Some test_state)),
      CallSetControllerId (Some ''test-controller-id''),
      CallAlarmsCreate ''passcode-timeout'' 5,
      CallAlarmsClear ''passcode-timeout'', CallAlarmsCreate ''passcode-timeout'' 5,
      CallClientState (Resolved (Some test_state))]"
proof -
  let ?w = stored_credentials_world
  let ?c = "connect ''http://stored-url.com'' ''stored-passcode''
              (snd (call_getAgentUrl (snd (call_getPasscode ?w))))"
  have h1: "client ?w = None" by code_simp
  have h2: "next_outcome (m_getPasscode ?w) = Resolved (Some ''stored-passcode'')"
    by code_simp
  have h3: "next_outcome (m_getAgentUrl ?w) = Resolved (Some ''http://stored-url.com'')"
    by code_simp
  have h4: "''http://stored-url.com'' \<noteq> []" and h5: "''stored-passcode'' \<noteq> []" by simp_all
  have f: "fst (isConnected ?w) = Resolved True" by code_simp
  then have h6: "isConnected ?w = (Resolved True, snd (isConnected ?w))"
    by (simp add: prod_eq_iff)
  have c1: "calls (snd ?c) =
     [CallGetPasscode, CallGetAgentUrl, CallReady,
      CallSignifyClient ''http://stored-url.com'' ''stored-passcode'', CallClientConnect,
      CallClientState (Resolved (Some test_state)),
      CallSetControllerId (Some ''test-controller-id''),
      CallAlarmsCreate ''passcode-timeout'' 5]" by code_simp
  have c2: "client (snd ?c) = Some MockClient" by code_simp
  have c3: "next_outcome (m_client_state (snd ?c)) = Resolved (Some test_state)" by code_simp
  from isConnected_lazy_reconnect [OF h1 h2 h3 h4 h5 h6 refl]
  have "calls (snd (isConnected ?w)) =
      calls (snd ?c) @
      [CallAlarmsClear ''passcode-timeout'', CallAlarmsCreate ''passcode-timeout'' 5] @
      (case client (snd ?c) of
         None \<Rightarrow> []
       | Some _ \<Rightarrow> [CallClientState (next_outcome (m_client_state (snd ?c)))])"
    by blast
  with h1 h2 h3 f show ?thesis unfolding c1 c2 c3 by simp
qed

subsection \<open>C7: one handle, and its reuse\<close>

text \<open>
  C7 says that at most one live client handle exists at any time, and that a connect
  attempt made while a handle exists reuses it rather than construct a second client.
  \<^verbatim>\<open>connect\<close> does not look at \<^verbatim>\<open>_client\<close> before it constructs: called in a world
  that holds a handle and has seen no constructor call, it succeeds with one constructor
  call made.
\<close>

theorem connect_with_handle_constructs_again:
  "client connected_world = Some MockClient \<and>
   constructions connected_world = 0 \<and>
   fst (connect ''http://example.com/agent'' ''test-passcode'' connected_world) =
     Resolved Undefined \<and>
   constructions (snd (connect ''http://example.com/agent'' ''test-passcode'' connected_world)) = 1"
  by code_simp

text \<open>
  C7, as the code has it: the session holds at most one handle, the value of the one
  variable \<^verbatim>\<open>_client\<close>.  \<^verbatim>\<open>isConnected\<close>, called while a handle exists, constructs no
  client and keeps the handle; \<^verbatim>\<open>connect\<close> constructs a client on every call on which
  \<^verbatim>\<open>ready()\<close> resolves, whether a handle exists or not.
\<close>

theorem handle_reuse_by_isConnected_not_by_connect:
  "(client w \<noteq> None \<longrightarrow>
      constructions (snd (isConnected w)) = constructions w \<and>
      client (snd (isConnected w)) = client w) \<and>
   (\<not> rejects (next_outcome (m_ready w)) \<longrightarrow>
      constructions (snd (connect agentUrl passcode w)) = constructions w + 1)"
proof (rule conjI; rule impI)
  have i: "isConnected w = (fst (isConnected w), snd (isConnected w))" by simp
  assume "client w \<noteq> None"
  with isConnected_with_handle [OF i]
  show "constructions (snd (isConnected w)) = constructions w \<and>
        client (snd (isConnected w)) = client w" by simp
next
  have c: "connect agentUrl passcode w =
           (fst (connect agentUrl passcode w), snd (connect agentUrl passcode w))" by simp
  assume "\<not> rejects (next_outcome (m_ready w))"
  with connect_constructs [OF c]
  show "constructions (snd (connect agentUrl passcode w)) = constructions w + 1" by simp
qed

theorem handle_reuse_by_isConnected_not_by_connect_witness:
  "client connected_world \<noteq> None \<and>
   constructions (snd (isConnected connected_world)) = constructions connected_world \<and>
   client (snd (isConnected connected_world)) = client connected_world \<and>
   \<not> rejects (next_outcome (m_ready connected_world)) \<and>
   constructions (snd (connect ''http://example.com/agent'' ''test-passcode'' connected_world)) =
     constructions connected_world + 1"
proof -
  have a: "client connected_world \<noteq> None" by code_simp
  have b: "\<not> rejects (next_outcome (m_ready connected_world))" by code_simp
  from handle_reuse_by_isConnected_not_by_connect
    [of connected_world "''http://example.com/agent''" "''test-passcode''"] a b
  show ?thesis by blast
qed

subsection \<open>C8: deleting an absent id\<close>

text \<open>
  C8: \<^verbatim>\<open>delete(id)\<close> is idempotent.  For every collection and every id, deleting an id
  that is absent returns \<^verbatim>\<open>success = false\<close> with the collection unchanged, a second
  delete of the same id is such a delete, and no delete signals an error.
\<close>

theorem registry_delete_idempotent:
  "(i \<notin> signin_id ` set signins \<longrightarrow> registry_delete i signins = Resolved (False, signins)) \<and>
   (\<exists>b rest. registry_delete i signins = Resolved (b, rest) \<and>
              registry_delete i rest = Resolved (False, rest))"
  by (auto simp add: registry_delete_def)

theorem registry_delete_idempotent_witness:
  "''b'' \<notin> signin_id ` set [example_signin] \<and>
   registry_delete ''b'' [example_signin] = Resolved (False, [example_signin]) \<and>
   registry_delete ''a'' [example_signin] = Resolved (True, []) \<and>
   registry_delete ''a'' [] = Resolved (False, [])"
proof -
  have a: "''b'' \<notin> signin_id ` set [example_signin]"
    by (simp add: example_signin_def)
  have b: "registry_delete ''a'' [example_signin] = Resolved (True, [])"
    by (simp add: registry_delete_def example_signin_def)
  from registry_delete_idempotent [of "''b''" "[example_signin]"]
       registry_delete_idempotent [of "''a''" "[example_signin]"] a b
  show ?thesis by auto
qed

subsection \<open>C9: the reload notification\<close>

text \<open>
  C9: for a delete and for an auto-signin update, the \<^verbatim>\<open>reload-state\<close> message goes to
  the active tab only after the mutation handler has completed, and whatever becomes of
  the notification (which tabs the query finds, whether a content script answers), the
  mutation settles the same way and leaves the same \<^verbatim>\<open>signins\<close>.
\<close>

theorem reload_after_mutation_and_never_part_of_it:
  "reload_only_after_reply (snd (deleteSignin i dreply env signins)) \<and>
   reload_only_after_reply (snd (updateAutoSignin s ureply env signins)) \<and>
   fst (deleteSignin i dreply env signins) = fst (deleteSignin i dreply env' signins) \<and>
   fst (updateAutoSignin s ureply env signins) = fst (updateAutoSignin s ureply env' signins)"
  by (auto simp add: deleteSignin_def updateAutoSignin_def reload_only_after_reply_def
        is_reload_def
      split: outcome.splits option.splits)

theorem reload_after_mutation_and_never_part_of_it_witness:
  "snd (deleteSignin ''a'' deleted_reply answering_tab (Some [example_signin])) =
     [SendMessage (DeleteResourceSignins ''a''), ReplyReceived, SetSignins (Some []), TabsQuery,
      TabsSendMessage (Some 7) GetTabState,
      TabsSendMessage (Some 7) (ReloadState (Some ''default''))] \<and>
   reload_only_after_reply
     (snd (deleteSignin ''a'' deleted_reply answering_tab (Some [example_signin]))) \<and>
   fst (deleteSignin ''a'' deleted_reply silent_tab (Some [example_signin])) =
     (Resolved (), Some []) \<and>
   fst (deleteSignin ''a'' deleted_reply answering_tab (Some [example_signin])) =
     (Resolved (), Some [])"
proof -
  have a: "snd (deleteSignin ''a'' deleted_reply answering_tab (Some [example_signin])) =
     [SendMessage (DeleteResourceSignins ''a''), ReplyReceived, SetSignins (Some []), TabsQuery,
      TabsSendMessage (Some 7) GetTabState,
      TabsSendMessage (Some 7) (ReloadState (Some ''default''))]"
    by (simp add: deleteSignin_def deleted_reply_def answering_tab_def notify_active_tab_def
        reload_callback_def)
  have b: "fst (deleteSignin ''a'' deleted_reply silent_tab (Some [example_signin])) =
     (Resolved (), Some [])"
    by (simp add: deleteSignin_def deleted_reply_def)
  from reload_after_mutation_and_never_part_of_it
         [of "''a''" deleted_reply answering_tab "Some [example_signin]" _ _ silent_tab] a b
  show ?thesis by simp
qed

subsection \<open>C10: the request of the sign-in button\<close>

text \<open>
  C10: whichever record the \<^verbatim>\<open>SigninItem\<close> shows, a click on its sign-in button sends
  one \<^verbatim>\<open>get-signed-headers\<close> request, whose \<^verbatim>\<open>signin\<close> field is the constant string
  \<^verbatim>\<open>selectedAID\<close>; nothing of the handler depends on the record.
\<close>

theorem handleClick_sends_constant_signin:
  "sent_requests (snd (handleClick signin reply root_present)) =
     [\<lparr>req_type = ''authentication'', req_subtype = ''get-signed-headers'',
       req_signin = ''selectedAID''\<rparr>] \<and>
   handleClick signin reply root_present = handleClick signin' reply root_present"
  by (cases reply) (simp_all add: handleClick_def sent_requests_def)

end
